theory Spec2Isabelle
  imports Complex_Main
begin

section \<open>Strings of the runtime\<close>

text \<open>
  The handler is TypeScript; its strings are sequences of UTF-16 code units. They are
  modelled as \<open>string\<close>, that is, as the strings whose code units are below 256
  (Latin-1). On these, \<open>trim\<close> and \<open>toLowerCase\<close> are as the language defines
  them: the white space and line terminators below 256 are TAB, LF, VT, FF, CR, SP and
  NBSP, and the letters with a lower-case form are A-Z and U+00C0..U+00DE without
  U+00D7, each 32 below its lower-case form.
\<close>

definition codeUnit :: "char \<Rightarrow> nat" where
  "codeUnit c = of_char c"

definition isWhiteSpace :: "char \<Rightarrow> bool" where
  "isWhiteSpace c = (codeUnit c \<in> {9, 10, 11, 12, 13, 32, 160})"

definition trim :: "string \<Rightarrow> string" where
  "trim s = rev (dropWhile isWhiteSpace (rev (dropWhile isWhiteSpace s)))"

definition toLowerChar :: "char \<Rightarrow> char" where
  "toLowerChar c =
     (let n = codeUnit c
      in if (65 \<le> n \<and> n \<le> 90) \<or> (192 \<le> n \<and> n \<le> 222 \<and> n \<noteq> 215)
         then char_of (n + 32) else c)"

definition toLowerCase :: "string \<Rightarrow> string" where
  "toLowerCase s = map toLowerChar s"

text \<open>\<open>s.includes(p)\<close>, and the substring search of an unanchored pattern.\<close>

fun startsWith :: "string \<Rightarrow> string \<Rightarrow> bool" where
  "startsWith s [] = True"
| "startsWith [] (p # ps) = False"
| "startsWith (c # cs) (p # ps) = (c = p \<and> startsWith cs ps)"

fun includes_str :: "string \<Rightarrow> string \<Rightarrow> bool" where
  "includes_str [] p = (p = [])"
| "includes_str (c # cs) p = (startsWith (c # cs) p \<or> includes_str cs p)"

text \<open>
  The pattern \<^verbatim>\<open>/active|inactive|inact|in active|status/i\<close>. Its alternatives are
  lower-case ASCII letters and the space; under the flag \<open>i\<close> a code unit below 256
  matches such a letter exactly when it is the letter or its upper-case form, which is
  what comparing with the lower-cased text does.
\<close>

definition statusAlternatives :: "string list" where
  "statusAlternatives = [''active'', ''inactive'', ''inact'', ''in active'', ''status'']"

definition statusPattern_test :: "string \<Rightarrow> bool" where
  "statusPattern_test txt = list_ex (includes_str (toLowerCase txt)) statusAlternatives"

section \<open>The parsed document\<close>

text \<open>
  \<open>cheerio.load\<close> is the library's HTML parser: it builds a document tree from every
  string and does not fail. The extractor is modelled from that tree on: a document is
  the list of the root's children, tag and attribute names as the parser leaves them
  (lower case).
\<close>

datatype node =
    Text string
  | Comment string
  | Element string "(string \<times> string) list" "node list"

type_synonym document = "node list"

fun childNodes :: "node \<Rightarrow> node list" where
  "childNodes (Element t as cs) = cs"
| "childNodes (Text s) = []"
| "childNodes (Comment s) = []"

text \<open>A node followed by its descendants, in document order.\<close>

fun subtree :: "node \<Rightarrow> node list" where
  "subtree (Element t as cs) = Element t as cs # concat (map subtree cs)"
| "subtree (Text s) = [Text s]"
| "subtree (Comment s) = [Comment s]"

definition descendants :: "node \<Rightarrow> node list" where
  "descendants n = concat (map subtree (childNodes n))"

fun isTag :: "string \<Rightarrow> node \<Rightarrow> bool" where
  "isTag name (Element t as cs) = (t = name)"
| "isTag name (Text s) = False"
| "isTag name (Comment s) = False"

text \<open>\<open>$(n).find(name)\<close> for a tag name: the descendants of \<open>n\<close> with that tag.\<close>

definition find_tag :: "string \<Rightarrow> node \<Rightarrow> node list" where
  "find_tag name n = filter (isTag name) (descendants n)"

text \<open>\<open>.text()\<close>: the text nodes below, concatenated; a comment has none.\<close>

fun text_of :: "node \<Rightarrow> string" where
  "text_of (Text s) = s"
| "text_of (Comment s) = []"
| "text_of (Element t as cs) = concat (map text_of cs)"

text \<open>\<open>.attr(name)\<close>: the first attribute of that name, \<open>None\<close> for \<open>undefined\<close>.\<close>

fun attr :: "string \<Rightarrow> node \<Rightarrow> string option" where
  "attr name (Element t as cs) = map_of as name"
| "attr name (Text s) = None"
| "attr name (Comment s) = None"

text \<open>
  \<open>$("table tbody tr")\<close>: every \<open>tr\<close> below a \<open>tbody\<close> that is below a \<open>table\<close>,
  once each and in document order. The flags say whether an ancestor \<open>table\<close>, and an
  ancestor \<open>tbody\<close> with a \<open>table\<close> above it, have been passed.
\<close>

fun rowsBelow :: "bool \<Rightarrow> bool \<Rightarrow> node \<Rightarrow> node list" where
  "rowsBelow inTable inTbody (Element t as cs) =
     (if t = ''tr'' \<and> inTbody then [Element t as cs] else []) @
     concat (map (rowsBelow (inTable \<or> t = ''table'') (inTbody \<or> (inTable \<and> t = ''tbody''))) cs)"
| "rowsBelow inTable inTbody (Text s) = []"
| "rowsBelow inTable inTbody (Comment s) = []"

definition select_rows :: "document \<Rightarrow> node list" where
  "select_rows html = concat (map (rowsBelow False False) html)"

text \<open>\<open>$('a[href*="SearchResultDetail"]')\<close>: the anchors whose \<open>href\<close> contains the marker.\<close>

definition isDetailAnchor :: "node \<Rightarrow> bool" where
  "isDetailAnchor n =
     (isTag ''a'' n \<and>
      (case attr ''href'' n of None \<Rightarrow> False | Some h \<Rightarrow> includes_str h ''SearchResultDetail''))"

definition select_detailAnchors :: "document \<Rightarrow> node list" where
  "select_detailAnchors html = filter isDetailAnchor (concat (map subtree html))"

section \<open>The extractor\<close>

record SunbizResult =
  name :: string
  status :: "string option"
  documentNumber :: "string option"
  url :: "string option"

datatype js_error = TypeError

text \<open>
  \<open>new URL(href, baseUrl).toString()\<close> is the runtime's, not the repository's: the
  extractor takes it as a parameter, \<open>None\<close> standing for the \<open>TypeError\<close> that the
  constructor throws when \<open>href\<close> does not parse against \<open>baseUrl\<close>.
\<close>

type_synonym url_ctor = "string \<Rightarrow> string \<Rightarrow> string option"

text \<open>The body of the callback over the rows; \<open>Inr None\<close> is the bare \<open>return\<close>.\<close>

definition parseRow :: "url_ctor \<Rightarrow> string \<Rightarrow> node \<Rightarrow> js_error + SunbizResult option" where
  "parseRow newURL baseUrl tr =
     (let tds = find_tag ''td'' tr
      in if length tds = 0 then Inr None
         else
           let nameAnchor = (case find_tag ''a'' (tds ! 0) of [] \<Rightarrow> None | a # _ \<Rightarrow> Some a);
               name' = trim (case nameAnchor of None \<Rightarrow> [] | Some a \<Rightarrow> text_of a)
           in if name' = [] then Inr None
              else
                let href = (case nameAnchor of None \<Rightarrow> None | Some a \<Rightarrow> attr ''href'' a);
                    documentNumber' =
                      (if 1 < length tds
                       then (let d = trim (text_of (tds ! 1)) in if d = [] then None else Some d)
                       else None);
                    status' = List.find statusPattern_test (map (\<lambda>td. trim (text_of td)) tds)
                in case (case href of
                           None \<Rightarrow> Inr None
                         | Some h \<Rightarrow>
                             if h = [] then Inr None
                             else (case newURL h baseUrl of
                                     None \<Rightarrow> Inl TypeError
                                   | Some u \<Rightarrow> Inr (Some u))) of
                     Inl e \<Rightarrow> Inl e
                   | Inr url' \<Rightarrow>
                       Inr (Some \<lparr>name = name', status = status',
                                  documentNumber = documentNumber', url = url'\<rparr>))"

fun eachRow ::
  "url_ctor \<Rightarrow> string \<Rightarrow> node list \<Rightarrow> SunbizResult list \<Rightarrow> js_error + SunbizResult list" where
  "eachRow newURL baseUrl [] results = Inr results"
| "eachRow newURL baseUrl (tr # trs) results =
     (case parseRow newURL baseUrl tr of
        Inl e \<Rightarrow> Inl e
      | Inr None \<Rightarrow> eachRow newURL baseUrl trs results
      | Inr (Some r) \<Rightarrow> eachRow newURL baseUrl trs (results @ [r]))"

text \<open>The body of the callback over the fallback anchors.\<close>

definition parseAnchor :: "url_ctor \<Rightarrow> string \<Rightarrow> node \<Rightarrow> js_error + SunbizResult option" where
  "parseAnchor newURL baseUrl a =
     (let name' = trim (text_of a);
          href = attr ''href'' a
      in case href of
           None \<Rightarrow> Inr None
         | Some h \<Rightarrow>
             if name' \<noteq> [] \<and> h \<noteq> []
             then (case newURL h baseUrl of
                     None \<Rightarrow> Inl TypeError
                   | Some u \<Rightarrow>
                       Inr (Some \<lparr>name = name', status = None, documentNumber = None,
                                  url = Some u\<rparr>))
             else Inr None)"

fun eachAnchor ::
  "url_ctor \<Rightarrow> string \<Rightarrow> node list \<Rightarrow> SunbizResult list \<Rightarrow> js_error + SunbizResult list" where
  "eachAnchor newURL baseUrl [] results = Inr results"
| "eachAnchor newURL baseUrl (a # as) results =
     (case parseAnchor newURL baseUrl a of
        Inl e \<Rightarrow> Inl e
      | Inr None \<Rightarrow> eachAnchor newURL baseUrl as results
      | Inr (Some r) \<Rightarrow> eachAnchor newURL baseUrl as (results @ [r]))"

definition parseSunbiz :: "url_ctor \<Rightarrow> document \<Rightarrow> string \<Rightarrow> js_error + SunbizResult list" where
  "parseSunbiz newURL html baseUrl =
     (case eachRow newURL baseUrl (select_rows html) [] of
        Inl e \<Rightarrow> Inl e
      | Inr results \<Rightarrow>
          if length results = 0
          then eachAnchor newURL baseUrl (select_detailAnchors html) results
          else Inr results)"

section \<open>The cache\<close>

text \<open>
  \<open>CACHE\<close> is a \<open>Map\<close>, which keeps its keys in the order of their first insertion:
  an association list in that order. \<open>set\<close> on a key that is present replaces the
  value where it stands; \<open>size\<close> is the length; \<open>keys().next().value\<close> is the first
  key.
\<close>

record CacheEntry =
  value_of :: "SunbizResult list"
  expiresAt :: int

type_synonym cache = "(string \<times> CacheEntry) list"

definition Map_get :: "cache \<Rightarrow> string \<Rightarrow> CacheEntry option" where
  "Map_get m k = map_of m k"

definition Map_delete :: "string \<Rightarrow> cache \<Rightarrow> cache" where
  "Map_delete k m = filter (\<lambda>p. fst p \<noteq> k) m"

fun Map_set :: "string \<Rightarrow> CacheEntry \<Rightarrow> cache \<Rightarrow> cache" where
  "Map_set k v [] = [(k, v)]"
| "Map_set k v (p # m) = (if fst p = k then (k, v) # m else p # Map_set k v m)"

definition CACHE_TTL_MS :: int where
  "CACHE_TTL_MS = 5 * 60 * 1000"

definition CACHE_MAX_ENTRIES :: nat where
  "CACHE_MAX_ENTRIES = 200"

text \<open>
  The clock reading \<open>Date.now()\<close> is passed in; the cache is passed in and returned.
  A stored entry is an object, so \<open>!hit\<close> holds only for a missing key.
\<close>

definition getCache :: "int \<Rightarrow> string \<Rightarrow> cache \<Rightarrow> SunbizResult list option \<times> cache" where
  "getCache now key CACHE =
     (case Map_get CACHE key of
        None \<Rightarrow> (None, CACHE)
      | Some hit \<Rightarrow>
          if now > expiresAt hit then (None, Map_delete key CACHE)
          else (Some (value_of hit), CACHE))"

text \<open>\<open>if (oldestKey)\<close> is a truthiness test: the empty string does not pass it.\<close>

definition setCache :: "int \<Rightarrow> string \<Rightarrow> SunbizResult list \<Rightarrow> cache \<Rightarrow> cache" where
  "setCache now key v CACHE =
     (let CACHE1 =
        (if length CACHE \<ge> CACHE_MAX_ENTRIES
         then (case CACHE of
                 [] \<Rightarrow> CACHE
               | (oldestKey, _) # _ \<Rightarrow>
                   if oldestKey \<noteq> [] then Map_delete oldestKey CACHE else CACHE)
         else CACHE)
      in Map_set key \<lparr>value_of = v, expiresAt = now + CACHE_TTL_MS\<rparr> CACHE1)"


definition normalizeQuery :: "string \<Rightarrow> string" where
  "normalizeQuery q = toLowerCase (trim q)"

section \<open>Numbers of the runtime\<close>

text \<open>
  A number is \<open>NaN\<close>, an infinity or a finite double, held as the rational that the
  double is. \<open>toDouble\<close> rounds a real value to the nearest double, ties to the even
  significand: the result is the nearest multiple of \<open>2 ^ (e - 52)\<close>, where
  \<open>2 ^ e\<close> is the power of two at or below the value and \<open>e\<close> is not below
  -1022; a value from \<open>2 ^ 1024\<close> on, or one that rounds up to it, gives an infinity.
\<close>

datatype jsnum = NaN | NegInf | Fin rat | PosInf

fun Math_min :: "jsnum \<Rightarrow> jsnum \<Rightarrow> jsnum" where
  "Math_min NaN y = NaN"
| "Math_min x NaN = NaN"
| "Math_min NegInf y = NegInf"
| "Math_min x NegInf = NegInf"
| "Math_min PosInf y = y"
| "Math_min x PosInf = x"
| "Math_min (Fin a) (Fin b) = Fin (min a b)"

fun Math_max :: "jsnum \<Rightarrow> jsnum \<Rightarrow> jsnum" where
  "Math_max NaN y = NaN"
| "Math_max x NaN = NaN"
| "Math_max PosInf y = PosInf"
| "Math_max x PosInf = PosInf"
| "Math_max NegInf y = y"
| "Math_max x NegInf = x"
| "Math_max (Fin a) (Fin b) = Fin (max a b)"

definition intPower :: "rat \<Rightarrow> int \<Rightarrow> rat" where
  "intPower b e = (if 0 \<le> e then b ^ nat e else 1 / b ^ nat (- e))"

text \<open>
  The exponent \<open>e\<close> with \<open>b ^ e \<le> a < b ^ (e + 1)\<close>, found by steps from 0; \<open>p\<close> is
  \<open>b ^ e\<close>, and the search stops after \<open>fuel\<close> steps.
\<close>

fun exponentUp :: "rat \<Rightarrow> nat \<Rightarrow> int \<Rightarrow> rat \<Rightarrow> rat \<Rightarrow> int" where
  "exponentUp b 0 e p a = e"
| "exponentUp b (Suc fuel) e p a =
     (if b * p \<le> a then exponentUp b fuel (e + 1) (b * p) a else e)"

fun exponentDown :: "rat \<Rightarrow> nat \<Rightarrow> int \<Rightarrow> rat \<Rightarrow> rat \<Rightarrow> int" where
  "exponentDown b 0 e p a = e"
| "exponentDown b (Suc fuel) e p a =
     (if a < p then exponentDown b fuel (e - 1) (p / b) a else e)"

definition binaryExponent :: "rat \<Rightarrow> int" where
  "binaryExponent a = (if 1 \<le> a then exponentUp 2 1024 0 1 a else exponentDown 2 1022 0 1 a)"

definition roundHalfEven :: "rat \<Rightarrow> int" where
  "roundHalfEven q =
     (let n = \<lfloor>q\<rfloor>; f = q - of_int n
      in if f < 1 / 2 then n
         else if 1 / 2 < f then n + 1
         else if even n then n else n + 1)"

definition toDouble :: "rat \<Rightarrow> jsnum" where
  "toDouble r =
     (let a = \<bar>r\<bar>
      in if a = 0 then Fin 0
         else
           (let e = binaryExponent a
            in if 1024 \<le> e then (if r < 0 then NegInf else PosInf)
               else
                 (let ulp = intPower 2 (e - 52);
                      n = roundHalfEven (a / ulp)
                  in if e = 1023 \<and> n = 2 ^ 53 then (if r < 0 then NegInf else PosInf)
                     else Fin ((if r < 0 then - 1 else 1) * of_int n * ulp))))"

text \<open>
  \<open>Number(s)\<close> on a string, by the grammar of numeric string literals: white space
  around, then nothing (zero), a binary, octal or hexadecimal integer without sign, or a
  signed decimal with optional fraction and exponent, or a signed \<open>Infinity\<close>;
  everything else is \<open>NaN\<close>. The value of the literal is rounded to a double (the
  language lets an engine cut a literal after its 20th significant digit first; the
  engine of Node rounds the exact value, as here).
\<close>

definition isDigit :: "char \<Rightarrow> bool" where
  "isDigit c = (48 \<le> codeUnit c \<and> codeUnit c \<le> 57)"

definition digitValue :: "char \<Rightarrow> nat option" where
  "digitValue c =
     (let n = codeUnit c
      in if 48 \<le> n \<and> n \<le> 57 then Some (n - 48)
         else if 97 \<le> n \<and> n \<le> 102 then Some (n - 87)
         else if 65 \<le> n \<and> n \<le> 70 then Some (n - 55)
         else None)"

fun radixValue :: "int \<Rightarrow> int \<Rightarrow> string \<Rightarrow> int option" where
  "radixValue radix acc [] = Some acc"
| "radixValue radix acc (c # cs) =
     (case digitValue c of
        None \<Rightarrow> None
      | Some d \<Rightarrow> if int d < radix then radixValue radix (radix * acc + int d) cs else None)"

definition digitsValue :: "int \<Rightarrow> string \<Rightarrow> int option" where
  "digitsValue radix ds = (if ds = [] then None else radixValue radix 0 ds)"

definition nonDecimalLiteral :: "string \<Rightarrow> int option" where
  "nonDecimalLiteral t =
     (case t of
        c0 # c1 # ds \<Rightarrow>
          if c0 = CHR ''0'' \<and> (c1 = CHR ''b'' \<or> c1 = CHR ''B'') then digitsValue 2 ds
          else if c0 = CHR ''0'' \<and> (c1 = CHR ''o'' \<or> c1 = CHR ''O'') then digitsValue 8 ds
          else if c0 = CHR ''0'' \<and> (c1 = CHR ''x'' \<or> c1 = CHR ''X'') then digitsValue 16 ds
          else None
      | _ \<Rightarrow> None)"

definition signOf :: "string \<Rightarrow> int \<times> string" where
  "signOf t =
     (case t of
        [] \<Rightarrow> (1, [])
      | c # cs \<Rightarrow> if c = CHR ''+'' then (1, cs) else if c = CHR ''-'' then (- 1, cs) else (1, c # cs))"

definition exponentPart :: "string \<Rightarrow> int option" where
  "exponentPart t =
     (case t of
        [] \<Rightarrow> Some 0
      | c # cs \<Rightarrow>
          if c = CHR ''e'' \<or> c = CHR ''E''
          then (case signOf cs of
                  (sg, ds) \<Rightarrow>
                    (case digitsValue 10 ds of None \<Rightarrow> None | Some n \<Rightarrow> Some (sg * n)))
          else None)"

definition scale10 :: "rat \<Rightarrow> int \<Rightarrow> rat" where
  "scale10 x e = (if 0 \<le> e then x * 10 ^ nat e else x / 10 ^ nat (- e))"

definition decimalLiteral :: "string \<Rightarrow> jsnum" where
  "decimalLiteral t =
     (case signOf t of
        (sg, u) \<Rightarrow>
          if u = ''Infinity'' then (if sg = 1 then PosInf else NegInf)
          else
            let ip = takeWhile isDigit u;
                r1 = dropWhile isDigit u;
                fp = (case r1 of
                        [] \<Rightarrow> []
                      | c # cs \<Rightarrow> if c = CHR ''.'' then takeWhile isDigit cs else []);
                r2 = (case r1 of
                        [] \<Rightarrow> []
                      | c # cs \<Rightarrow> if c = CHR ''.'' then dropWhile isDigit cs else r1)
            in if ip = [] \<and> fp = [] then NaN
               else (case exponentPart r2 of
                       None \<Rightarrow> NaN
                     | Some e \<Rightarrow>
                         toDouble
                               (scale10
                                (of_int sg *
                                 (of_int (case radixValue 10 0 ip of None \<Rightarrow> 0 | Some n \<Rightarrow> n) +
                                  of_int (case radixValue 10 0 fp of None \<Rightarrow> 0 | Some n \<Rightarrow> n) /
                                  10 ^ length fp))
                                e)))"

definition Number_of :: "string \<Rightarrow> jsnum" where
  "Number_of s =
     (let t = trim s
      in if t = [] then Fin 0
         else (case nonDecimalLiteral t of
                 Some n \<Rightarrow> toDouble (of_int n)
               | None \<Rightarrow> decimalLiteral t))"

text \<open>
  The text of a number in a template literal (\<open>Number::toString\<close>, radix 10). For a
  positive double \<open>x\<close> it takes the least count \<open>k\<close> of digits for which some
  \<open>s\<close> of \<open>k\<close> digits and some \<open>n\<close> have \<open>s * 10 ^ (n - k)\<close> round to
  \<open>x\<close>; among several \<open>s\<close> the one that gives the value closest to \<open>x\<close>, the
  even one on a tie. With \<open>10 ^ (n - 1) \<le> x < 10 ^ n\<close> the candidates for \<open>k\<close>
  digits are the integers on either side of \<open>x / 10 ^ (n - k)\<close>; 17 digits always
  suffice. The digits are then laid out by \<open>n\<close>: as an integer, with a decimal point,
  with leading zeros, or with an exponent.
\<close>

definition digitChar :: "nat \<Rightarrow> char" where
  "digitChar d = ''0123456789'' ! d"

function showDigits :: "int \<Rightarrow> string" where
  "showDigits n =
     (if n < 10 then [digitChar (nat n)]
      else showDigits (n div 10) @ [digitChar (nat (n mod 10))])"
  by pat_completeness auto
termination
  by (relation "measure nat") auto

definition decimalExponent :: "rat \<Rightarrow> int" where
  "decimalExponent x =
     (if 1 \<le> x then exponentUp 10 400 0 1 x else exponentDown 10 400 0 1 x) + 1"

fun shortestDigits :: "nat \<Rightarrow> nat \<Rightarrow> int \<Rightarrow> rat \<Rightarrow> nat \<times> int \<times> int" where
  "shortestDigits 0 k n x = (k, n, \<lfloor>x / intPower 10 (n - int k)\<rfloor>)"
| "shortestDigits (Suc fuel) k n x =
     (let unit = intPower 10 (n - int k);
          lo = \<lfloor>x / unit\<rfloor>;
          hi = lo + 1;
          okLo = (toDouble (of_int lo * unit) = Fin x);
          okHi = (toDouble (of_int hi * unit) = Fin x);
          nearerHi = (of_int hi * unit - x < x - of_int lo * unit \<or>
                      (of_int hi * unit - x = x - of_int lo * unit \<and> even hi))
      in if okHi \<and> (\<not> okLo \<or> nearerHi)
         then (if hi = 10 ^ k then (1, n + 1, 1) else (k, n, hi))
         else if okLo then (k, n, lo)
         else shortestDigits fuel (Suc k) n x)"

definition layoutDigits :: "nat \<times> int \<times> int \<Rightarrow> string" where
  "layoutDigits d =
     (case d of
        (k, n, s) \<Rightarrow>
          (let ds = showDigits s
           in if int k \<le> n \<and> n \<le> 21 then ds @ replicate (nat (n - int k)) (CHR ''0'')
              else if 0 < n \<and> n \<le> 21 then take (nat n) ds @ ''.'' @ drop (nat n) ds
              else if - 6 < n \<and> n \<le> 0 then ''0.'' @ replicate (nat (- n)) (CHR ''0'') @ ds
              else
                (let ex = (if 0 \<le> n - 1 then ''+'' else ''-'') @ showDigits \<bar>n - 1\<bar>
                 in if k = 1 then ds @ ''e'' @ ex
                    else take 1 ds @ ''.'' @ drop 1 ds @ ''e'' @ ex)))"

definition showPositive :: "rat \<Rightarrow> string" where
  "showPositive x = layoutDigits (shortestDigits 17 1 (decimalExponent x) x)"

fun numberToString :: "jsnum \<Rightarrow> string" where
  "numberToString NaN = ''NaN''"
| "numberToString PosInf = ''Infinity''"
| "numberToString NegInf = ''-Infinity''"
| "numberToString (Fin r) =
     (if r = 0 then ''0'' else if r < 0 then CHR ''-'' # showPositive (- r) else showPositive r)"

text \<open>
  \<open>xs.slice(0, end)\<close>: the end is truncated to an integer (\<open>NaN\<close> to 0), a negative
  end counts from the back, and the result stops at the length.
\<close>

definition toInteger :: "rat \<Rightarrow> int" where
  "toInteger r = (if 0 \<le> r then \<lfloor>r\<rfloor> else \<lceil>r\<rceil>)"

fun slice0 :: "'a list \<Rightarrow> jsnum \<Rightarrow> 'a list" where
  "slice0 xs NaN = take 0 xs"
| "slice0 xs NegInf = take 0 xs"
| "slice0 xs PosInf = xs"
| "slice0 xs (Fin r) =
     (let k = toInteger r
      in if k < 0 then take (nat (max (int (length xs) + k) 0)) xs
         else take (nat (min k (int (length xs)))) xs)"

text \<open>
  \<open>encodeURIComponent\<close> on code units below 256: letters, digits and \<open>-_.!~*'()\<close>
  stay, every other unit is the percent-encoding of its UTF-8 bytes.
\<close>

definition isUnreserved :: "char \<Rightarrow> bool" where
  "isUnreserved c =
     (let n = codeUnit c
      in (48 \<le> n \<and> n \<le> 57) \<or> (65 \<le> n \<and> n \<le> 90) \<or> (97 \<le> n \<and> n \<le> 122) \<or>
         n \<in> {45, 95, 46, 33, 126, 42, 39, 40, 41})"

definition percentByte :: "nat \<Rightarrow> string" where
  "percentByte n = [CHR ''%'', ''0123456789ABCDEF'' ! (n div 16), ''0123456789ABCDEF'' ! (n mod 16)]"

definition encodeChar :: "char \<Rightarrow> string" where
  "encodeChar c =
     (let n = codeUnit c
      in if isUnreserved c then [c]
         else if n < 128 then percentByte n
         else percentByte (192 + n div 64) @ percentByte (128 + n mod 64))"

definition encodeURIComponent :: "string \<Rightarrow> string" where
  "encodeURIComponent s = concat (map encodeChar s)"

section \<open>The handler\<close>

text \<open>
  The request is read through its search parameters \<open>q\<close> and \<open>limit\<close>, \<open>None\<close> for
  a parameter that is not there. What \<open>fetch\<close> gives is either a rejection (with the
  text that the handler's \<open>catch\<close> reports), or a response with its status and its
  body, the body as \<open>cheerio.load\<close> parses it, or the text with which reading it fails.
\<close>

record request =
  q_param :: "string option"
  limit_param :: "string option"

datatype fetch_result =
    Rejected string
  | Response int "string + document"

datatype json =
    ResultsBody "SunbizResult list" "bool option"
  | ErrorBody string "int option" "string option"

type_synonym response = "nat \<times> json"

text \<open>What a call does to the world outside it, in the order in which it does it.\<close>

datatype effect = CacheGet string | Fetch string | CacheSet string

definition errorDetails :: "js_error \<Rightarrow> string" where
  "errorDetails e = (case e of TypeError \<Rightarrow> ''Invalid URL'')"

definition effective_limit :: "string option \<Rightarrow> jsnum" where
  "effective_limit raw =
     Math_max (Fin 1)
       (Math_min (Fin 10)
          (case raw of
             None \<Rightarrow> Fin 7
           | Some s \<Rightarrow> if s = [] then Fin 7 else Number_of s))"

text \<open>\<open>searchParams.get("q") || ""\<close>, and the template literal of the cache key.\<close>

definition query_of :: "request \<Rightarrow> string" where
  "query_of req = (case q_param req of None \<Rightarrow> [] | Some s \<Rightarrow> s)"

definition cacheKey_of :: "string \<Rightarrow> jsnum \<Rightarrow> string" where
  "cacheKey_of cleaned limit = cleaned @ '':'' @ numberToString limit"

definition searchUrl :: "string \<Rightarrow> string \<Rightarrow> string" where
  "searchUrl baseUrl q =
     baseUrl @ ''/Inquiry/CorporationSearch/SearchResults?inquiryType=EntityName&searchTerm='' @
     encodeURIComponent q"

text \<open>
  \<open>GET\<close> takes the runtime's URL constructor, the network, the clock readings of the
  lookup and of the store, the request and the cache; it returns the response, the
  cache and the effects.
\<close>

definition GET ::
  "url_ctor \<Rightarrow> (string \<Rightarrow> fetch_result) \<Rightarrow> int \<Rightarrow> int \<Rightarrow> request \<Rightarrow> cache \<Rightarrow>
     response \<times> cache \<times> effect list" where
  "GET newURL fetch nowGet nowSet req CACHE =
     (let q = query_of req;
          limit = effective_limit (limit_param req);
          cleaned = normalizeQuery q
      in if length cleaned < 2
         then ((400, ErrorBody ''Query must be at least 2 characters.'' None None), CACHE, [])
         else
           (let cacheKey = cacheKey_of cleaned limit;
                lookup = getCache nowGet cacheKey CACHE;
                CACHE1 = snd lookup
            in (case fst lookup of
                  Some cached \<Rightarrow>
                    ((200, ResultsBody (slice0 cached limit) (Some True)), CACHE1,
                     [CacheGet cacheKey])
                | None \<Rightarrow>
                    (let baseUrl = ''https://search.sunbiz.org'';
                         url' = searchUrl baseUrl q
                     in (case fetch url' of
                           Rejected msg \<Rightarrow>
                             ((500, ErrorBody ''Unexpected error while searching Sunbiz.''
                                      None (Some msg)),
                              CACHE1, [CacheGet cacheKey, Fetch url'])
                         | Response st body \<Rightarrow>
                             (if \<not> (200 \<le> st \<and> st \<le> 299)
                              then ((502, ErrorBody ''Failed to fetch Sunbiz results.'' (Some st) None),
                                    CACHE1, [CacheGet cacheKey, Fetch url'])
                              else (case body of
                                      Inl msg \<Rightarrow>
                                        ((500, ErrorBody ''Unexpected error while searching Sunbiz.''
                                                 None (Some msg)),
                                         CACHE1, [CacheGet cacheKey, Fetch url'])
                                    | Inr html \<Rightarrow>
                                        (case parseSunbiz newURL html baseUrl of
                                           Inl e \<Rightarrow>
                                             ((500,
                                               ErrorBody ''Unexpected error while searching Sunbiz.''
                                                 None (Some (errorDetails e))),
                                              CACHE1, [CacheGet cacheKey, Fetch url'])
                                         | Inr parsed \<Rightarrow>
                                             (let results = slice0 parsed limit
                                              in ((200, ResultsBody results None),
                                                  setCache nowSet cacheKey results CACHE1,
                                                  [CacheGet cacheKey, Fetch url',
                                                   CacheSet cacheKey]))))))))))"







text \<open>The outbound calls among the effects.\<close>

fun isFetch :: "effect \<Rightarrow> bool" where
  "isFetch (Fetch u) = True"
| "isFetch (CacheGet k) = False"
| "isFetch (CacheSet k) = False"

definition fetchCount :: "effect list \<Rightarrow> nat" where
  "fetchCount es = length (filter isFetch es)"

section \<open>The URL constructor on the addresses of the examples\<close>

text \<open>
  Three facts about \<open>new URL(href, base).toString()\<close>, which is all that the closed
  statements below use of it: a base without a colon has no scheme, and the constructor
  throws; \<^verbatim>\<open>http://[\<close> opens an IPv6 literal that is not closed, and the constructor
  throws; against the base \<^verbatim>\<open>https://search.sunbiz.org\<close> a reference that is a slash, then
  letters, digits and single slashes, then optionally a question mark and letters,
  digits, \<open>=\<close>, \<open>&\<close> and dots, is appended to the base as it is. \<open>sampleURL\<close> has
  these three values; its \<open>None\<close> anywhere else stands for no fact about the runtime and
  no statement evaluates it there.
\<close>

definition isAlnum :: "char \<Rightarrow> bool" where
  "isAlnum c =
     (let n = codeUnit c
      in (48 \<le> n \<and> n \<le> 57) \<or> (65 \<le> n \<and> n \<le> 90) \<or> (97 \<le> n \<and> n \<le> 122))"

fun plainPath :: "string \<Rightarrow> bool" where
  "plainPath [] = True"
| "plainPath (c # cs) =
     (if c = CHR ''?'' then list_all (\<lambda>d. isAlnum d \<or> d = CHR ''='' \<or> d = CHR ''&'' \<or> d = CHR ''.'') cs
      else if c = CHR ''/'' then (case cs of [] \<Rightarrow> True | d # _ \<Rightarrow> d \<noteq> CHR ''/'') \<and> plainPath cs
      else isAlnum c \<and> plainPath cs)"

definition sampleURL :: url_ctor where
  "sampleURL href base =
     (if CHR '':'' \<notin> set base then None
      else if href = ''http://['' then None
      else if base = ''https://search.sunbiz.org'' \<and> take 1 href = ''/'' \<and> plainPath href
      then Some (base @ href)
      else None)"

section \<open>Inputs of the examples\<close>

text \<open>The row of the end-to-end example, and the record it stands for.\<close>

definition teslaHref :: string where
  "teslaHref = ''/Inquiry/CorporationSearch/SearchResultDetail?inquirytype=...''"

definition teslaRow :: node where
  "teslaRow =
     Element ''tr'' []
       [Element ''td'' [] [Element ''a'' [(''href'', teslaHref)] [Text ''TESLA LLC'']],
        Element ''td'' [] [Text ''P12000012345''],
        Element ''td'' [] [Text ''ACTIVE'']]"

definition teslaDoc :: document where
  "teslaDoc =
     [Element ''html'' []
        [Element ''head'' [] [],
         Element ''body'' [] [Element ''table'' [] [Element ''tbody'' [] [teslaRow]]]]]"

definition teslaRecord :: SunbizResult where
  "teslaRecord =
     \<lparr>name = ''TESLA LLC'', status = Some ''ACTIVE'', documentNumber = Some ''P12000012345'',
      url = Some ''https://search.sunbiz.org/Inquiry/CorporationSearch/SearchResultDetail?inquirytype=...''\<rparr>"

text \<open>A page with two rows, the second without a link.\<close>

definition twoRowsDoc :: document where
  "twoRowsDoc =
     [Element ''table'' []
        [Element ''tbody'' []
           [teslaRow,
            Element ''tr'' []
              [Element ''td'' [] [Element ''a'' [] [Text ''TESLA MOTORS INC'']],
               Element ''td'' [] [Text ''F09000001234''],
               Element ''td'' [] [Text ''INACT'']]]]]"

definition teslaMotorsRecord :: SunbizResult where
  "teslaMotorsRecord =
     \<lparr>name = ''TESLA MOTORS INC'', status = Some ''INACT'',
      documentNumber = Some ''F09000001234'', url = None\<rparr>"







text \<open>The \<open>fromCache\<close> field of a response, \<open>None\<close> when the body has none.\<close>

fun fromCache_of :: "response \<Rightarrow> bool option" where
  "fromCache_of (st, ResultsBody rs tag) = tag"
| "fromCache_of (st, ErrorBody msg upstream details) = None"

section \<open>The map and the cache\<close>

lemma Map_get_Map_set_same: "Map_get (Map_set k v m) k = Some v"
  by (induction m) (auto simp: Map_get_def)

lemma Map_get_Map_set_other: "k' \<noteq> k \<Longrightarrow> Map_get (Map_set k v m) k' = Map_get m k'"
  by (induction m) (auto simp: Map_get_def)

lemma Map_get_Map_delete_same: "Map_get (Map_delete k m) k = None"
  by (induction m) (auto simp: Map_get_def Map_delete_def)

lemma Map_get_Map_delete_other: "k' \<noteq> k \<Longrightarrow> Map_get (Map_delete k m) k' = Map_get m k'"
  by (induction m) (auto simp: Map_get_def Map_delete_def)

lemma Map_get_setCache_same:
  "Map_get (setCache now key v CACHE) key = Some \<lparr>value_of = v, expiresAt = now + CACHE_TTL_MS\<rparr>"
  by (simp add: setCache_def Let_def Map_get_Map_set_same)

lemma getCache_hit:
  "Map_get CACHE key = Some hit \<Longrightarrow> now \<le> expiresAt hit \<Longrightarrow>
   getCache now key CACHE = (Some (value_of hit), CACHE)"
  by (simp add: getCache_def)

lemma getCache_expired:
  "Map_get CACHE key = Some hit \<Longrightarrow> now > expiresAt hit \<Longrightarrow>
   getCache now key CACHE = (None, Map_delete key CACHE)"
  by (simp add: getCache_def)


lemma getCache_Some_iff:
  "fst (getCache now key CACHE) = Some v \<longleftrightarrow>
   (\<exists>hit. Map_get CACHE key = Some hit \<and> now \<le> expiresAt hit \<and> v = value_of hit)"
  by (auto simp: getCache_def split: option.splits)


lemma Map_set_fresh: "k \<notin> fst ` set m \<Longrightarrow> Map_set k v m = m @ [(k, v)]"
  by (induction m) auto


















section \<open>Where the extractor finds its addresses\<close>

lemma subtree_self: "n \<in> set (subtree n)"
  by (cases n) auto














section \<open>The paths of the handler\<close>

lemma slice0_Nil: "slice0 [] limit = []"
  by (cases limit) (simp_all add: Let_def)

lemma getCache_Some_unchanged:
  "fst (getCache now key CACHE) = Some v \<Longrightarrow> snd (getCache now key CACHE) = CACHE"
  by (auto simp: getCache_def split: option.splits if_splits)

lemma GET_hit:
  assumes "2 \<le> length (normalizeQuery (query_of req))"
    and "limit = effective_limit (limit_param req)"
    and "key = cacheKey_of (normalizeQuery (query_of req)) limit"
    and "fst (getCache nowGet key CACHE) = Some cached"
  shows "GET newURL fetch nowGet nowSet req CACHE =
           ((200, ResultsBody (slice0 cached limit) (Some True)), CACHE, [CacheGet key])"
  using assms getCache_Some_unchanged [of nowGet key CACHE cached]
  by (simp add: GET_def Let_def)

lemma GET_miss_success:
  assumes "2 \<le> length (normalizeQuery (query_of req))"
    and "limit = effective_limit (limit_param req)"
    and "key = cacheKey_of (normalizeQuery (query_of req)) limit"
    and "fst (getCache nowGet key CACHE) = None"
    and "fetch (searchUrl ''https://search.sunbiz.org'' (query_of req)) = Response st (Inr html)"
    and "200 \<le> st" and "st \<le> 299"
    and "parseSunbiz newURL html ''https://search.sunbiz.org'' = Inr parsed"
  shows "GET newURL fetch nowGet nowSet req CACHE =
           ((200, ResultsBody (slice0 parsed limit) None),
            setCache nowSet key (slice0 parsed limit) (snd (getCache nowGet key CACHE)),
            [CacheGet key, Fetch (searchUrl ''https://search.sunbiz.org'' (query_of req)),
             CacheSet key])"
  using assms by (simp add: GET_def Let_def)

lemma GET_status_200:
  assumes "GET newURL fetch nowGet nowSet req CACHE = ((200, b), CACHE', es)"
    and "limit = effective_limit (limit_param req)"
    and "key = cacheKey_of (normalizeQuery (query_of req)) limit"
  shows "(\<exists>e. Map_get CACHE' key = Some e \<and> (nowGet \<le> expiresAt e \<or> expiresAt e = nowSet + CACHE_TTL_MS)) \<and> fetchCount es \<le> 1"
proof (cases "length (normalizeQuery (query_of req)) < 2")
  case True
  with assms(1) show ?thesis by (simp add: GET_def Let_def)
next
  case long: False
  show ?thesis
  proof (cases "fst (getCache nowGet key CACHE)")
    case (Some cached)
    then have "GET newURL fetch nowGet nowSet req CACHE =
           ((200, ResultsBody (slice0 cached limit) (Some True)), CACHE, [CacheGet key])"
      using long assms(2,3) by (intro GET_hit) simp_all
    with assms(1) have "CACHE' = CACHE" "es = [CacheGet key]" by simp_all
    moreover from Some obtain hit where "Map_get CACHE key = Some hit" "nowGet \<le> expiresAt hit"
      using getCache_Some_iff by blast
    ultimately show ?thesis by (simp add: fetchCount_def)
  next
    case None
    with assms long show ?thesis
      by (auto simp: GET_def Let_def Map_get_setCache_same fetchCount_def
               split: fetch_result.splits sum.splits if_splits)
  qed
qed



lemma find_first_match:
  "\<forall>x \<in> set xs. \<not> P x \<Longrightarrow> P y \<Longrightarrow> List.find P (xs @ y # ys) = Some y"
  by (induction xs) auto

lemma statusPattern_examples:
  "\<not> statusPattern_test ''TESLA LLC''" "\<not> statusPattern_test ''P12000012345''"
  "statusPattern_test ''ACTIVE''"
  by code_simp+


lemma effective_limit_range:
  "effective_limit raw = NaN \<or> (\<exists>r. effective_limit raw = Fin r \<and> 1 \<le> r \<and> r \<le> 10)"
proof -
  have "Math_max (Fin 1) (Math_min (Fin 10) x) = NaN \<or>
        (\<exists>r. Math_max (Fin 1) (Math_min (Fin 10) x) = Fin r \<and> 1 \<le> r \<and> r \<le> 10)" for x
    by (cases x) auto
  then show ?thesis by (simp add: effective_limit_def)
qed






















text \<open>
  The truthiness test of the eviction: were the oldest key the empty string, nothing would
  be evicted. No cache of the program has such a key.
\<close>

lemma setCache_empty_oldest_key:
  assumes "CACHE_MAX_ENTRIES \<le> length (([], e) # rest)" and "key \<notin> fst ` set (([], e) # rest)"
  shows "setCache now key v (([], e) # rest) =
           ([], e) # rest @ [(key, \<lparr>value_of = v, expiresAt = now + CACHE_TTL_MS\<rparr>)]"
  using assms Map_set_fresh [of key rest] by (auto simp: setCache_def)

section \<open>C1: the extractor and malformed markup\<close>




section \<open>C2: the effective limit\<close>

text \<open>
  C2 asks for an integer in [1, 10], and for 7 when the limit is absent or cannot be
  parsed. The code gives 7 for an absent or empty limit and clamps every number, but
  \<open>Number("abc")\<close> is \<open>NaN\<close>, and \<open>Math.min\<close> and \<open>Math.max\<close> hand it on: for
  \<open>limit=abc\<close> the effective limit is \<open>NaN\<close>, the key ends in \<open>:NaN\<close> and
  \<open>slice(0, NaN)\<close> answers with no record although the page has one.
\<close>

theorem C2_unparsable_limit_is_NaN:
  "effective_limit (Some ''abc'') = NaN \<and>
   GET sampleURL (\<lambda>u. Response 200 (Inr teslaDoc)) 0 0
     \<lparr>q_param = Some ''tesla'', limit_param = Some ''abc''\<rparr> [] =
     ((200, ResultsBody [] None),
      [(''tesla:NaN'', \<lparr>value_of = [], expiresAt = 300000\<rparr>)],
      [CacheGet ''tesla:NaN'',
       Fetch ''https://search.sunbiz.org/Inquiry/CorporationSearch/SearchResults?inquiryType=EntityName&searchTerm=tesla'',
       CacheSet ''tesla:NaN''])"
  by code_simp

section \<open>C3: what a miss stores\<close>

text \<open>
  C3, as the code has it. On a miss followed by a fetch with a success status whose body
  the extractor turns into \<open>parsed\<close>, the entry stored under the key
  \<open>normalizedQuery + ":" + limit\<close> holds \<open>parsed.slice(0, limit)\<close>, the records of
  the response, and expires \<open>CACHE_TTL_MS\<close> after the store.
\<close>

theorem C3_stores_first_limit_records:
  assumes "2 \<le> length (normalizeQuery (query_of req))"
    and "limit = effective_limit (limit_param req)"
    and "key = cacheKey_of (normalizeQuery (query_of req)) limit"
    and "fst (getCache nowGet key CACHE) = None"
    and "fetch (searchUrl ''https://search.sunbiz.org'' (query_of req)) = Response st (Inr html)"
    and "200 \<le> st" and "st \<le> 299"
    and "parseSunbiz newURL html ''https://search.sunbiz.org'' = Inr parsed"
  shows "Map_get (fst (snd (GET newURL fetch nowGet nowSet req CACHE))) key =
           Some \<lparr>value_of = slice0 parsed limit, expiresAt = nowSet + CACHE_TTL_MS\<rparr>"
  by (simp add: GET_miss_success [where fetch = fetch and newURL = newURL, OF assms]
        Map_get_setCache_same)

text \<open>Two rows and the limit 1.5: one record is stored, under the key \<open>tesla:1.5\<close>.\<close>

theorem C3_stores_first_limit_records_witness:
  "parseSunbiz sampleURL twoRowsDoc ''https://search.sunbiz.org'' =
     Inr [teslaRecord, teslaMotorsRecord] \<and>
   Map_get (fst (snd (GET sampleURL (\<lambda>u. Response 200 (Inr twoRowsDoc)) 10 20
                        \<lparr>q_param = Some '' Tesla'', limit_param = Some ''1.5''\<rparr> [])))
     ''tesla:1.5'' =
     Some \<lparr>value_of = [teslaRecord], expiresAt = 20 + CACHE_TTL_MS\<rparr>"
proof -
  let ?req = "\<lparr>q_param = Some '' Tesla'', limit_param = Some ''1.5''\<rparr>"
  have p1: "2 \<le> length (normalizeQuery (query_of ?req))" by code_simp
  have p2: "Fin (3 / 2) = effective_limit (limit_param ?req)" by code_simp
  have p3: "''tesla:1.5'' = cacheKey_of (normalizeQuery (query_of ?req)) (Fin (3 / 2))" by code_simp
  have p4: "fst (getCache 10 ''tesla:1.5'' []) = None" by code_simp
  have p5: "(\<lambda>u. Response 200 (Inr twoRowsDoc)) (searchUrl ''https://search.sunbiz.org'' (query_of ?req)) =
      Response 200 (Inr twoRowsDoc)" by simp
  have p6: "parseSunbiz sampleURL twoRowsDoc ''https://search.sunbiz.org'' =
     Inr [teslaRecord, teslaMotorsRecord]" by code_simp
  have s: "slice0 [teslaRecord, teslaMotorsRecord] (Fin (3 / 2)) = [teslaRecord]" by code_simp
  from C3_stores_first_limit_records
         [where fetch = "\<lambda>u. Response 200 (Inr twoRowsDoc)" and newURL = sampleURL
            and nowSet = 20, OF p1 p2 p3 p4 p5 _ _ p6]
       p6 s
  show ?thesis by simp
qed

text \<open>
  C3 as stated fails: with two rows extracted and the limit 1, the entry holds the first
  record only, not the full extracted sequence.
\<close>

theorem C3_full_sequence_counterexample:
  "parseSunbiz sampleURL twoRowsDoc ''https://search.sunbiz.org'' =
     Inr [teslaRecord, teslaMotorsRecord] \<and>
   GET sampleURL (\<lambda>u. Response 200 (Inr twoRowsDoc)) 0 0
     \<lparr>q_param = Some ''tesla'', limit_param = Some ''1''\<rparr> [] =
     ((200, ResultsBody [teslaRecord] None),
      [(''tesla:1'', \<lparr>value_of = [teslaRecord], expiresAt = 300000\<rparr>)],
      [CacheGet ''tesla:1'',
       Fetch ''https://search.sunbiz.org/Inquiry/CorporationSearch/SearchResults?inquiryType=EntityName&searchTerm=tesla'',
       CacheSet ''tesla:1''])"
  by code_simp

section \<open>C4: two calls in succession\<close>

text \<open>
  C4, as the code has it. If a call with a query of normalized length at least 2 is
  answered with results (status 200), and the same request is made again before the
  entry under its key expires, then the second call is a cache hit: it returns the first
  \<open>limit\<close> records of the cached sequence with \<open>fromCache = true\<close>, it makes no
  outbound call, and the two calls together make at most one.
\<close>

theorem C4_second_call_hits:
  assumes "2 \<le> length (normalizeQuery (query_of req))"
    and "limit = effective_limit (limit_param req)"
    and "key = cacheKey_of (normalizeQuery (query_of req)) limit"
    and first: "GET newURL fetch nowGet nowSet req CACHE = ((200, b), CACHE', es)"
    and fresh: "\<forall>e. Map_get CACHE' key = Some e \<longrightarrow> nowGet' \<le> expiresAt e"
  shows "\<exists>e. Map_get CACHE' key = Some e \<and>
             GET newURL' fetch' nowGet' nowSet' req CACHE' =
               ((200, ResultsBody (slice0 (value_of e) limit) (Some True)), CACHE',
                [CacheGet key]) \<and>
             fetchCount (es @ [CacheGet key]) \<le> 1"
proof -
  from GET_status_200 [OF first assms(2,3)] obtain e
    where e: "Map_get CACHE' key = Some e" and n: "fetchCount es \<le> 1" by blast
  from e fresh have "nowGet' \<le> expiresAt e" by blast
  with e have "fst (getCache nowGet' key CACHE') = Some (value_of e)"
    by (simp add: getCache_hit)
  from n have "fetchCount (es @ [CacheGet key]) \<le> 1" by (simp add: fetchCount_def)
  with GET_hit [OF assms(1,2,3) \<open>fst (getCache nowGet' key CACHE') = Some (value_of e)\<close>] e
  show ?thesis by blast
qed

text \<open>
  The end-to-end example twice: the first call fetches and stores, the second is served
  from the cache at the last instant of the entry, with the network down.
\<close>

theorem C4_second_call_hits_witness:
  "GET sampleURL (\<lambda>u. Response 200 (Inr teslaDoc)) 0 1
     \<lparr>q_param = Some ''tesla'', limit_param = Some ''7''\<rparr> [] =
     ((200, ResultsBody [teslaRecord] None),
      [(''tesla:7'', \<lparr>value_of = [teslaRecord], expiresAt = 300001\<rparr>)],
      [CacheGet ''tesla:7'',
       Fetch ''https://search.sunbiz.org/Inquiry/CorporationSearch/SearchResults?inquiryType=EntityName&searchTerm=tesla'',
       CacheSet ''tesla:7'']) \<and>
   GET sampleURL (\<lambda>u. Rejected ''fetch failed'') 300001 300002
     \<lparr>q_param = Some ''tesla'', limit_param = Some ''7''\<rparr>
     [(''tesla:7'', \<lparr>value_of = [teslaRecord], expiresAt = 300001\<rparr>)] =
     ((200, ResultsBody [teslaRecord] (Some True)),
      [(''tesla:7'', \<lparr>value_of = [teslaRecord], expiresAt = 300001\<rparr>)],
      [CacheGet ''tesla:7''])"
proof -
  let ?req = "\<lparr>q_param = Some ''tesla'', limit_param = Some ''7''\<rparr>"
  let ?c = "[(''tesla:7'', \<lparr>value_of = [teslaRecord], expiresAt = 300001\<rparr>)]"
  let ?u = "''https://search.sunbiz.org/Inquiry/CorporationSearch/SearchResults?inquiryType=EntityName&searchTerm=tesla''"
  have p1: "2 \<le> length (normalizeQuery (query_of ?req))" by code_simp
  have p2: "Fin 7 = effective_limit (limit_param ?req)" by code_simp
  have p3: "''tesla:7'' = cacheKey_of (normalizeQuery (query_of ?req)) (Fin 7)" by code_simp
  have first: "GET sampleURL (\<lambda>u. Response 200 (Inr teslaDoc)) 0 1 ?req [] =
     ((200, ResultsBody [teslaRecord] None), ?c,
      [CacheGet ''tesla:7'', Fetch ?u, CacheSet ''tesla:7''])" by code_simp
  have fresh: "\<forall>e. Map_get ?c ''tesla:7'' = Some e \<longrightarrow> 300001 \<le> expiresAt e"
    by (simp add: Map_get_def)
  have s: "slice0 [teslaRecord] (Fin 7) = [teslaRecord]" by code_simp
  from C4_second_call_hits
         [where fetch = "\<lambda>u. Response 200 (Inr teslaDoc)" and newURL = sampleURL
            and fetch' = "\<lambda>u. Rejected ''fetch failed''" and newURL' = sampleURL
            and nowSet' = 300002, OF p1 p2 p3 first fresh]
  obtain e where e: "Map_get ?c ''tesla:7'' = Some e"
    and second: "GET sampleURL (\<lambda>u. Rejected ''fetch failed'') 300001 300002 ?req ?c =
      ((200, ResultsBody (slice0 (value_of e) (Fin 7)) (Some True)), ?c, [CacheGet ''tesla:7''])"
    by blast
  from e have "value_of e = [teslaRecord]" by (auto simp: Map_get_def)
  with second s first show ?thesis by (simp del: slice0.simps)
qed

text \<open>
  C4 as stated fails when the first call does not succeed: an upstream status 503 is
  answered with 502 and nothing is stored, so the second call fetches again, two
  outbound calls in all, and is not a cache hit.
\<close>

theorem C4_failed_fetch_counterexample:
  "GET sampleURL (\<lambda>u. Response 503 (Inr [])) 0 0
     \<lparr>q_param = Some ''tesla'', limit_param = Some ''7''\<rparr> [] =
     ((502, ErrorBody ''Failed to fetch Sunbiz results.'' (Some 503) None), [],
      [CacheGet ''tesla:7'',
       Fetch ''https://search.sunbiz.org/Inquiry/CorporationSearch/SearchResults?inquiryType=EntityName&searchTerm=tesla'']) \<and>
   GET sampleURL (\<lambda>u. Response 503 (Inr [])) 1 1
     \<lparr>q_param = Some ''tesla'', limit_param = Some ''7''\<rparr> [] =
     ((502, ErrorBody ''Failed to fetch Sunbiz results.'' (Some 503) None), [],
      [CacheGet ''tesla:7'',
       Fetch ''https://search.sunbiz.org/Inquiry/CorporationSearch/SearchResults?inquiryType=EntityName&searchTerm=tesla'']) \<and>
   fetchCount
     ([CacheGet ''tesla:7'',
       Fetch ''https://search.sunbiz.org/Inquiry/CorporationSearch/SearchResults?inquiryType=EntityName&searchTerm=tesla''] @
      [CacheGet ''tesla:7'',
       Fetch ''https://search.sunbiz.org/Inquiry/CorporationSearch/SearchResults?inquiryType=EntityName&searchTerm=tesla'']) = 2"
  by code_simp

section \<open>C5: validation\<close>

text \<open>
  C5. A query whose trimmed, lower-cased form is shorter than 2 is answered with status
  400 and the validation message; the call has no effect at all (no cache lookup, no
  outbound call, no cache store) and leaves the cache as it found it.
\<close>

theorem C5_short_query_rejected:
  "length (normalizeQuery (query_of req)) < 2 \<Longrightarrow>
   GET newURL fetch nowGet nowSet req CACHE =
     ((400, ErrorBody ''Query must be at least 2 characters.'' None None), CACHE, [])"
  by (simp add: GET_def Let_def)

text \<open>
  The query \<open>" A "\<close> against a cache that holds an entry: the entry stays, although it
  has expired and a lookup would have deleted it.
\<close>

theorem C5_short_query_rejected_witness:
  "length (normalizeQuery (query_of \<lparr>q_param = Some '' A '', limit_param = None\<rparr>)) < 2 \<and>
   GET sampleURL (\<lambda>u. Response 200 (Inr teslaDoc)) 9 9
     \<lparr>q_param = Some '' A '', limit_param = None\<rparr>
     [(''a:7'', \<lparr>value_of = [], expiresAt = 5\<rparr>)] =
     ((400, ErrorBody ''Query must be at least 2 characters.'' None None),
      [(''a:7'', \<lparr>value_of = [], expiresAt = 5\<rparr>)], [])"
proof -
  have short: "length (normalizeQuery (query_of \<lparr>q_param = Some '' A '', limit_param = None\<rparr>)) < 2"
    by code_simp
  from C5_short_query_rejected [OF short] short show ?thesis by blast
qed

section \<open>C6: expiry\<close>

text \<open>
  C6. \<open>getCache\<close> returns a value exactly when the key has an entry and the clock is
  not past its \<open>expiresAt\<close>; on an entry that has expired it reports absence and
  deletes the entry. So an entry stored at \<open>T\<close> has \<open>expiresAt = T + CACHE_TTL_MS\<close>,
  is returned at every \<open>t \<le> T + CACHE_TTL_MS\<close> and is absent, and deleted, at every
  later \<open>t\<close>.
\<close>

theorem C6_cache_expiry:
  "(fst (getCache now key CACHE) = Some v \<longleftrightarrow>
      (\<exists>hit. Map_get CACHE key = Some hit \<and> now \<le> expiresAt hit \<and> v = value_of hit)) \<and>
   (Map_get CACHE key = Some hit \<and> now > expiresAt hit \<longrightarrow>
      getCache now key CACHE = (None, Map_delete key CACHE) \<and>
      Map_get (Map_delete key CACHE) key = None) \<and>
   (Map_get (setCache T key v CACHE) key =
      Some \<lparr>value_of = v, expiresAt = T + CACHE_TTL_MS\<rparr>) \<and>
   (t \<le> T + CACHE_TTL_MS \<longrightarrow>
      getCache t key (setCache T key v CACHE) = (Some v, setCache T key v CACHE)) \<and>
   (t > T + CACHE_TTL_MS \<longrightarrow>
      fst (getCache t key (setCache T key v CACHE)) = None \<and>
      Map_get (snd (getCache t key (setCache T key v CACHE))) key = None)"
proof (intro conjI impI)
  show "fst (getCache now key CACHE) = Some v \<longleftrightarrow>
      (\<exists>hit. Map_get CACHE key = Some hit \<and> now \<le> expiresAt hit \<and> v = value_of hit)"
    by (rule getCache_Some_iff)
next
  assume "Map_get CACHE key = Some hit \<and> now > expiresAt hit"
  then show "getCache now key CACHE = (None, Map_delete key CACHE)"
    by (simp add: getCache_expired)
next
  show "Map_get (Map_delete key CACHE) key = None"
    by (rule Map_get_Map_delete_same)
next
  show "Map_get (setCache T key v CACHE) key =
      Some \<lparr>value_of = v, expiresAt = T + CACHE_TTL_MS\<rparr>"
    by (rule Map_get_setCache_same)
next
  assume "t \<le> T + CACHE_TTL_MS"
  then show "getCache t key (setCache T key v CACHE) = (Some v, setCache T key v CACHE)"
    using getCache_hit [where CACHE = "setCache T key v CACHE" and key = key and now = t,
        OF Map_get_setCache_same] by simp
next
  assume late: "t > T + CACHE_TTL_MS"
  then have e: "getCache t key (setCache T key v CACHE) =
      (None, Map_delete key (setCache T key v CACHE))"
    using getCache_expired [where CACHE = "setCache T key v CACHE" and key = key and now = t,
        OF Map_get_setCache_same] by simp
  show "fst (getCache t key (setCache T key v CACHE)) = None" by (simp add: e)
  show "Map_get (snd (getCache t key (setCache T key v CACHE))) key = None"
    by (simp add: e Map_get_Map_delete_same)
qed

text \<open>
  An entry stored at 0 is there at 300000 and gone at 300001; an entry that expired at 5
  is deleted by the lookup at 6 and returned by the lookup at 5.
\<close>

theorem C6_cache_expiry_witness:
  "getCache 300000 ''tesla:7'' (setCache 0 ''tesla:7'' [teslaRecord] []) =
     (Some [teslaRecord], setCache 0 ''tesla:7'' [teslaRecord] []) \<and>
   fst (getCache 300001 ''tesla:7'' (setCache 0 ''tesla:7'' [teslaRecord] [])) = None \<and>
   getCache 6 ''tesla:7'' [(''tesla:7'', \<lparr>value_of = [teslaRecord], expiresAt = 5\<rparr>)] =
     (None, Map_delete ''tesla:7'' [(''tesla:7'', \<lparr>value_of = [teslaRecord], expiresAt = 5\<rparr>)]) \<and>
   fst (getCache 5 ''tesla:7'' [(''tesla:7'', \<lparr>value_of = [teslaRecord], expiresAt = 5\<rparr>)]) =
     Some [teslaRecord]"
  using
    C6_cache_expiry [where t = 300000 and T = 0 and key = "''tesla:7''" and v = "[teslaRecord]"
        and CACHE = "[]"]
    C6_cache_expiry [where t = 300001 and T = 0 and key = "''tesla:7''" and v = "[teslaRecord]"
        and CACHE = "[]"]
    C6_cache_expiry [where now = 6 and key = "''tesla:7''"
        and CACHE = "[(''tesla:7'', \<lparr>value_of = [teslaRecord], expiresAt = 5\<rparr>)]"
        and hit = "\<lparr>value_of = [teslaRecord], expiresAt = 5\<rparr>"]
    C6_cache_expiry [where now = 5 and key = "''tesla:7''" and v = "[teslaRecord]"
        and CACHE = "[(''tesla:7'', \<lparr>value_of = [teslaRecord], expiresAt = 5\<rparr>)]"]
  by (simp add: CACHE_TTL_MS_def Map_get_def)

section \<open>C7: the bound and the eviction\<close>



section \<open>C8: the response of a miss\<close>

text \<open>
  C8, as the code has it. On a miss followed by a fetch with a success status whose body
  the extractor turns into \<open>parsed\<close>, the response has status 200, its results are
  \<open>parsed.slice(0, limit)\<close>, and it has no \<open>fromCache\<close> field.
\<close>

theorem C8_miss_response:
  assumes "2 \<le> length (normalizeQuery (query_of req))"
    and "limit = effective_limit (limit_param req)"
    and "key = cacheKey_of (normalizeQuery (query_of req)) limit"
    and "fst (getCache nowGet key CACHE) = None"
    and "fetch (searchUrl ''https://search.sunbiz.org'' (query_of req)) = Response st (Inr html)"
    and "200 \<le> st" and "st \<le> 299"
    and "parseSunbiz newURL html ''https://search.sunbiz.org'' = Inr parsed"
  shows "fst (GET newURL fetch nowGet nowSet req CACHE) =
           (200, ResultsBody (slice0 parsed limit) None)"
  by (simp add: GET_miss_success [where fetch = fetch and newURL = newURL, OF assms])

text \<open>Two rows and the limit 1: the first record, and no \<open>fromCache\<close>.\<close>

theorem C8_miss_response_witness:
  "parseSunbiz sampleURL twoRowsDoc ''https://search.sunbiz.org'' =
     Inr [teslaRecord, teslaMotorsRecord] \<and>
   fst (GET sampleURL (\<lambda>u. Response 200 (Inr twoRowsDoc)) 10 20
          \<lparr>q_param = Some ''TESLA'', limit_param = Some ''1''\<rparr> []) =
     (200, ResultsBody [teslaRecord] None)"
proof -
  let ?req = "\<lparr>q_param = Some ''TESLA'', limit_param = Some ''1''\<rparr>"
  have p1: "2 \<le> length (normalizeQuery (query_of ?req))" by code_simp
  have p2: "Fin 1 = effective_limit (limit_param ?req)" by code_simp
  have p3: "''tesla:1'' = cacheKey_of (normalizeQuery (query_of ?req)) (Fin 1)" by code_simp
  have p4: "fst (getCache 10 ''tesla:1'' []) = None" by code_simp
  have p5: "(\<lambda>u. Response 200 (Inr twoRowsDoc)) (searchUrl ''https://search.sunbiz.org'' (query_of ?req)) =
      Response 200 (Inr twoRowsDoc)" by simp
  have p6: "parseSunbiz sampleURL twoRowsDoc ''https://search.sunbiz.org'' =
     Inr [teslaRecord, teslaMotorsRecord]" by code_simp
  have s: "slice0 [teslaRecord, teslaMotorsRecord] (Fin 1) = [teslaRecord]" by code_simp
  from C8_miss_response
         [where fetch = "\<lambda>u. Response 200 (Inr twoRowsDoc)" and newURL = sampleURL
            and nowSet = 20, OF p1 p2 p3 p4 p5 _ _ p6]
       p6 s
  show ?thesis by simp
qed

text \<open>
  C8 as stated fails: the response of the end-to-end example carries no \<open>fromCache\<close>
  field, so it is not tagged \<open>fromCache = false\<close>.
\<close>

theorem C8_fromCache_absent_counterexample:
  "GET sampleURL (\<lambda>u. Response 200 (Inr teslaDoc)) 0 0
     \<lparr>q_param = Some ''tesla'', limit_param = Some ''7''\<rparr> [] =
     ((200, ResultsBody [teslaRecord] None),
      [(''tesla:7'', \<lparr>value_of = [teslaRecord], expiresAt = 300000\<rparr>)],
      [CacheGet ''tesla:7'',
       Fetch ''https://search.sunbiz.org/Inquiry/CorporationSearch/SearchResults?inquiryType=EntityName&searchTerm=tesla'',
       CacheSet ''tesla:7'']) \<and>
   fromCache_of (fst (GET sampleURL (\<lambda>u. Response 200 (Inr teslaDoc)) 0 0
     \<lparr>q_param = Some ''tesla'', limit_param = Some ''7''\<rparr> [])) \<noteq> Some False"
  by code_simp

section \<open>C9: the end-to-end example of the extractor\<close>

text \<open>
  C9. A document whose only row has a first cell with the text \<open>TESLA LLC\<close> and a
  first link of that text whose \<open>href\<close> resolves to \<open>u\<close>, a second cell with the
  text \<open>P12000012345\<close>, and after cells that do not look like a status a cell with the
  text \<open>ACTIVE\<close>, yields exactly the record with that name, document number and status
  and the url \<open>u\<close>. A row without cells, and a row whose name is empty after trimming,
  yield nothing, and the loop goes on to the next row with the results unchanged.
\<close>

theorem C9_extractor_example:
  "(select_rows html = [tr] \<and> find_tag ''td'' tr = c0 # c1 # pre @ c2 # post \<and>
    find_tag ''a'' c0 = a # as \<and> trim (text_of a) = ''TESLA LLC'' \<and>
    trim (text_of c0) = ''TESLA LLC'' \<and>
    attr ''href'' a = Some h \<and> h \<noteq> [] \<and> newURL h baseUrl = Some u \<and>
    trim (text_of c1) = ''P12000012345'' \<and>
    (\<forall>c \<in> set pre. \<not> statusPattern_test (trim (text_of c))) \<and>
    trim (text_of c2) = ''ACTIVE'' \<longrightarrow>
    parseSunbiz newURL html baseUrl =
      Inr [\<lparr>name = ''TESLA LLC'', status = Some ''ACTIVE'',
            documentNumber = Some ''P12000012345'', url = Some u\<rparr>]) \<and>
   (find_tag ''td'' tr' = [] \<longrightarrow> parseRow newURL baseUrl tr' = Inr None) \<and>
   (find_tag ''td'' tr' = c # cs \<and>
    trim (case find_tag ''a'' c of [] \<Rightarrow> [] | a' # _ \<Rightarrow> text_of a') = [] \<longrightarrow>
    parseRow newURL baseUrl tr' = Inr None) \<and>
   (parseRow newURL baseUrl tr' = Inr None \<longrightarrow>
    eachRow newURL baseUrl (tr' # trs) results = eachRow newURL baseUrl trs results)"
proof (intro conjI impI)
  assume row: "select_rows html = [tr] \<and> find_tag ''td'' tr = c0 # c1 # pre @ c2 # post \<and>
    find_tag ''a'' c0 = a # as \<and> trim (text_of a) = ''TESLA LLC'' \<and>
    trim (text_of c0) = ''TESLA LLC'' \<and>
    attr ''href'' a = Some h \<and> h \<noteq> [] \<and> newURL h baseUrl = Some u \<and>
    trim (text_of c1) = ''P12000012345'' \<and>
    (\<forall>c \<in> set pre. \<not> statusPattern_test (trim (text_of c))) \<and>
    trim (text_of c2) = ''ACTIVE''"
  let ?t = "\<lambda>td. trim (text_of td)"
  from row have "List.find statusPattern_test (map ?t pre @ ?t c2 # map ?t post) = Some (?t c2)"
    by (intro find_first_match) (auto simp: statusPattern_examples)
  with row have st: "List.find statusPattern_test (map ?t (c0 # c1 # pre @ c2 # post)) =
      Some ''ACTIVE''"
    by (simp add: statusPattern_examples)
  from row have "parseRow newURL baseUrl tr =
      Inr (Some \<lparr>name = ''TESLA LLC'', status = Some ''ACTIVE'',
                  documentNumber = Some ''P12000012345'', url = Some u\<rparr>)"
    unfolding parseRow_def Let_def using st by simp
  with row show "parseSunbiz newURL html baseUrl =
      Inr [\<lparr>name = ''TESLA LLC'', status = Some ''ACTIVE'',
            documentNumber = Some ''P12000012345'', url = Some u\<rparr>]"
    by (simp add: parseSunbiz_def)
next
  assume "find_tag ''td'' tr' = []"
  then show "parseRow newURL baseUrl tr' = Inr None"
    by (simp add: parseRow_def)
next
  assume "find_tag ''td'' tr' = c # cs \<and>
    trim (case find_tag ''a'' c of [] \<Rightarrow> [] | a' # _ \<Rightarrow> text_of a') = []"
  then show "parseRow newURL baseUrl tr' = Inr None"
    by (auto simp: parseRow_def Let_def split: list.splits)
next
  assume "parseRow newURL baseUrl tr' = Inr None"
  then show "eachRow newURL baseUrl (tr' # trs) results = eachRow newURL baseUrl trs results"
    by simp
qed

text \<open>
  The page of the example against \<^verbatim>\<open>https://search.sunbiz.org\<close>; a header row, which has
  no \<open>td\<close>; a row whose link text is blank.
\<close>

theorem C9_extractor_example_witness:
  "parseSunbiz sampleURL teslaDoc ''https://search.sunbiz.org'' = Inr [teslaRecord] \<and>
   parseRow sampleURL ''https://search.sunbiz.org'' (Element ''tr'' [] [Element ''th'' [] [Text ''Name'']]) = Inr None \<and>
   parseRow sampleURL ''https://search.sunbiz.org''
     (Element ''tr'' [] [Element ''td'' [] [Element ''a'' [(''href'', teslaHref)] [Text ''  '']]]) = Inr None \<and>
   eachRow sampleURL ''https://search.sunbiz.org''
     [Element ''tr'' [] [Element ''th'' [] [Text ''Name'']], teslaRow] [] = Inr [teslaRecord]"
proof -
  let ?a = "Element ''a'' [(''href'', teslaHref)] [Text ''TESLA LLC'']"
  let ?c0 = "Element ''td'' [] [?a]"
  let ?c1 = "Element ''td'' [] [Text ''P12000012345'']"
  let ?c2 = "Element ''td'' [] [Text ''ACTIVE'']"
  let ?hdr = "Element ''tr'' [] [Element ''th'' [] [Text ''Name'']]"
  let ?blank = "Element ''a'' [(''href'', teslaHref)] [Text ''  '']"
  let ?tr2 = "Element ''tr'' [] [Element ''td'' [] [?blank]]"
  have h1: "select_rows teslaDoc = [teslaRow]" by code_simp
  have h2: "find_tag ''td'' teslaRow = ?c0 # ?c1 # [] @ ?c2 # []" by code_simp
  have h0: "\<forall>c \<in> set []. \<not> statusPattern_test (trim (text_of c))" by simp
  have h3: "find_tag ''a'' ?c0 = ?a # []" by code_simp
  have h4: "trim (text_of ?a) = ''TESLA LLC''" "trim (text_of ?c0) = ''TESLA LLC''"
    "trim (text_of ?c1) = ''P12000012345''" "trim (text_of ?c2) = ''ACTIVE''" by code_simp+
  have h5: "attr ''href'' ?a = Some teslaHref" "teslaHref \<noteq> []" by code_simp+
  have h6: "sampleURL teslaHref ''https://search.sunbiz.org'' =
      Some ''https://search.sunbiz.org/Inquiry/CorporationSearch/SearchResultDetail?inquirytype=...''"
    by code_simp
  have h7: "find_tag ''td'' ?hdr = []" by code_simp
  have h8: "find_tag ''td'' ?tr2 = Element ''td'' [] [?blank] # []"
    "trim (case find_tag ''a'' (Element ''td'' [] [?blank]) of [] \<Rightarrow> [] | a' # _ \<Rightarrow> text_of a') = []"
    by code_simp+
  have h9: "eachRow sampleURL ''https://search.sunbiz.org'' [teslaRow] [] = Inr [teslaRecord]"
    by code_simp
  note thm1 = C9_extractor_example [where html = teslaDoc and tr = teslaRow and ?c0.0 = ?c0
      and ?c1.0 = ?c1 and ?c2.0 = ?c2 and pre = "[]" and post = "[]" and a = ?a and as = "[]" and h = teslaHref
      and newURL = sampleURL and baseUrl = "''https://search.sunbiz.org''"
      and u = "''https://search.sunbiz.org/Inquiry/CorporationSearch/SearchResultDetail?inquirytype=...''"
      and tr' = ?hdr and trs = "[teslaRow]" and results = "[]"]
  note thm2 = C9_extractor_example [where newURL = sampleURL and baseUrl = "''https://search.sunbiz.org''"
      and tr' = ?tr2 and c = "Element ''td'' [] [?blank]" and cs = "[]"]
  have A: "parseSunbiz sampleURL teslaDoc ''https://search.sunbiz.org'' = Inr [teslaRecord]"
    unfolding teslaRecord_def using thm1 h0 h1 h2 h3 h4 h5 h6 by blast
  have B: "parseRow sampleURL ''https://search.sunbiz.org'' ?hdr = Inr None"
    using thm1 h7 by blast
  have C: "parseRow sampleURL ''https://search.sunbiz.org'' ?tr2 = Inr None"
    using thm2 h8 by blast
  have D: "eachRow sampleURL ''https://search.sunbiz.org'' [?hdr, teslaRow] [] =
      eachRow sampleURL ''https://search.sunbiz.org'' [teslaRow] []"
    using thm1 B by blast
  from A B C D h9 show ?thesis by simp
qed

section \<open>C10: an empty result is cached\<close>

text \<open>
  C10. When a miss is followed by a fetch with a success status from whose body the
  extractor gets no record, the empty sequence is stored under the key; the same request
  made again within \<open>CACHE_TTL_MS\<close> of the store is a cache hit (an empty array is a
  value, not absence), answered with no results and \<open>fromCache = true\<close>, without an
  outbound call.
\<close>

theorem C10_empty_result_is_cached:
  assumes "2 \<le> length (normalizeQuery (query_of req))"
    and "limit = effective_limit (limit_param req)"
    and "key = cacheKey_of (normalizeQuery (query_of req)) limit"
    and "fst (getCache nowGet key CACHE) = None"
    and "fetch (searchUrl ''https://search.sunbiz.org'' (query_of req)) = Response st (Inr html)"
    and "200 \<le> st" and "st \<le> 299"
    and "parseSunbiz newURL html ''https://search.sunbiz.org'' = Inr []"
    and "CACHE' = fst (snd (GET newURL fetch nowGet nowSet req CACHE))"
    and "nowGet' \<le> nowSet + CACHE_TTL_MS"
  shows "Map_get CACHE' key = Some \<lparr>value_of = [], expiresAt = nowSet + CACHE_TTL_MS\<rparr> \<and>
         GET newURL' fetch' nowGet' nowSet' req CACHE' =
           ((200, ResultsBody [] (Some True)), CACHE', [CacheGet key])"
proof -
  have c: "CACHE' = setCache nowSet key [] (snd (getCache nowGet key CACHE))"
    using GET_miss_success [where fetch = fetch and newURL = newURL and nowSet = nowSet,
        OF assms(1-8)] assms(9)
    by (simp add: slice0_Nil)
  then have m: "Map_get CACHE' key = Some \<lparr>value_of = [], expiresAt = nowSet + CACHE_TTL_MS\<rparr>"
    by (simp add: Map_get_setCache_same)
  with assms(10) have "fst (getCache nowGet' key CACHE') = Some []"
    by (simp add: getCache_hit)
  from GET_hit [OF assms(1,2,3) this] m show ?thesis by (simp add: slice0_Nil)
qed

text \<open>A page without rows or detail links, asked for twice.\<close>

theorem C10_empty_result_is_cached_witness:
  "parseSunbiz sampleURL [Element ''html'' [] [Element ''body'' [] [Text ''No records'']]]
     ''https://search.sunbiz.org'' = Inr [] \<and>
   GET sampleURL (\<lambda>u. Response 200 (Inr [Element ''html'' [] [Element ''body'' [] [Text ''No records'']]]))
     0 1 \<lparr>q_param = Some ''zzzz'', limit_param = None\<rparr> [] =
     ((200, ResultsBody [] None),
      [(''zzzz:7'', \<lparr>value_of = [], expiresAt = 300001\<rparr>)],
      [CacheGet ''zzzz:7'',
       Fetch ''https://search.sunbiz.org/Inquiry/CorporationSearch/SearchResults?inquiryType=EntityName&searchTerm=zzzz'',
       CacheSet ''zzzz:7'']) \<and>
   GET sampleURL (\<lambda>u. Rejected ''fetch failed'') 300001 300002
     \<lparr>q_param = Some ''zzzz'', limit_param = None\<rparr>
     [(''zzzz:7'', \<lparr>value_of = [], expiresAt = 300001\<rparr>)] =
     ((200, ResultsBody [] (Some True)),
      [(''zzzz:7'', \<lparr>value_of = [], expiresAt = 300001\<rparr>)], [CacheGet ''zzzz:7''])"
proof -
  let ?req = "\<lparr>q_param = Some ''zzzz'', limit_param = None\<rparr>"
  let ?html = "[Element ''html'' [] [Element ''body'' [] [Text ''No records'']]]"
  let ?c = "[(''zzzz:7'', \<lparr>value_of = [], expiresAt = 300001\<rparr>)]"
  let ?u = "''https://search.sunbiz.org/Inquiry/CorporationSearch/SearchResults?inquiryType=EntityName&searchTerm=zzzz''"
  have p1: "2 \<le> length (normalizeQuery (query_of ?req))" by code_simp
  have p2: "Fin 7 = effective_limit (limit_param ?req)" by code_simp
  have p3: "''zzzz:7'' = cacheKey_of (normalizeQuery (query_of ?req)) (Fin 7)" by code_simp
  have p4: "fst (getCache 0 ''zzzz:7'' []) = None" by code_simp
  have p5: "(\<lambda>u. Response 200 (Inr ?html)) (searchUrl ''https://search.sunbiz.org'' (query_of ?req)) =
      Response 200 (Inr ?html)" by simp
  have p6: "parseSunbiz sampleURL ?html ''https://search.sunbiz.org'' = Inr []" by code_simp
  have first: "GET sampleURL (\<lambda>u. Response 200 (Inr ?html)) 0 1 ?req [] =
     ((200, ResultsBody [] None), ?c, [CacheGet ''zzzz:7'', Fetch ?u, CacheSet ''zzzz:7''])"
    by code_simp
  then have p9: "?c = fst (snd (GET sampleURL (\<lambda>u. Response 200 (Inr ?html)) 0 1 ?req []))"
    by simp
  have p10: "(300001::int) \<le> 1 + CACHE_TTL_MS" by (simp add: CACHE_TTL_MS_def)
  from C10_empty_result_is_cached
         [where fetch = "\<lambda>u. Response 200 (Inr ?html)" and newURL = sampleURL
            and fetch' = "\<lambda>u. Rejected ''fetch failed''" and newURL' = sampleURL
            and nowSet' = 300002, OF p1 p2 p3 p4 p5 _ _ p6 p9 p10]
       p6 first
  show ?thesis by simp
qed

end
